theory Spec2Isabelle
  imports Complex_Main
begin

section \<open>Reinforcement material for Eurocode 2 (2023)\<close>

text \<open>
  A shallow embedding of the class \<open>ReinforcementEC2_2023\<close> of
  \<open>materials/reinforcement/_reinforcementEC2_2023.py\<close>.

  Numbers: the Python floats of the class are modelled by the reals. Values are finite
  and arithmetic is exact; rounding, infinities and NaN are outside the model. What
  Python does at a zero divisor is kept: the true division of two floats raises
  \<open>ZeroDivisionError\<close>.

  Errors: every exception is a value, a call returns \<open>error + 'a\<close> with \<open>Inl\<close>
  for the raised exception.
\<close>

subsection \<open>Exceptions and sequencing\<close>

datatype error = ValueError string | ZeroDivisionError

fun and_then :: "error + 'a \<Rightarrow> ('a \<Rightarrow> error + 'b) \<Rightarrow> error + 'b" where
  "and_then (Inl e) f = Inl e"
| "and_then (Inr v) f = f v"

text \<open>Python's \<open>a / b\<close> on floats.\<close>

definition truediv :: "real \<Rightarrow> real \<Rightarrow> error + real" where
  "truediv a b = (if b = 0 then Inl ZeroDivisionError else Inr (a / b))"

subsection \<open>Rounding and formatting of the default name\<close>

text \<open>
  Python's \<open>round(x)\<close> with one argument returns the nearest integer and rounds a
  tie to the even neighbour.
\<close>

definition py_round :: "real \<Rightarrow> int" where
  "py_round x =
     (let f = \<lfloor>x\<rfloor>; d = x - of_int f
      in if d < 1 / 2 then f
         else if 1 / 2 < d then f + 1
         else if even f then f else f + 1)"

definition digit_char :: "nat \<Rightarrow> char" where
  "digit_char d = ''0123456789'' ! d"

fun digits :: "nat \<Rightarrow> string" where
  "digits n = (if n < 10 then [digit_char n] else digits (n div 10) @ [digit_char (n mod 10)])"

declare digits.simps [simp del]

text \<open>The format specification \<open>d\<close> of an f-string: decimal digits, a minus sign for
  a negative integer.\<close>

definition format_d :: "int \<Rightarrow> string" where
  "format_d i = (if i < 0 then CHR ''-'' # digits (nat (- i)) else digits (nat i))"

subsection \<open>Collaborators that are not part of the module\<close>

text \<open>
  The code rules \<open>ec2_2023.fyd\<close> and \<open>ec2_2023.eps_ud\<close> live in another package.
  They are parameters of the model: any two functions of a characteristic value and a
  partial factor, which may raise.
\<close>

record ec2_2023 =
  ec2_fyd :: "real \<Rightarrow> real \<Rightarrow> error + real"
  ec2_eps_ud :: "real \<Rightarrow> real \<Rightarrow> error + real"

text \<open>
  A constitutive law, as far as the class looks at it: the marker \<open>__materials__\<close>
  (the material categories the law applies to) and the keyword arguments it was built
  from.
\<close>

record constitutive_law =
  law_materials :: "string list"
  law_kwargs :: "(string \<times> real) list"

text \<open>
  The argument \<open>constitutive_law\<close> of the constructor: a law object, a string, or
  \<open>None\<close>.
\<close>

datatype law_arg = LawInstance constitutive_law | LawName string | LawNone

subsection \<open>The base class\<close>

text \<open>
  The attributes the class inherits from \<open>Reinforcement\<close>. The field
  \<open>gamma_s_attr\<close> is the private attribute \<open>_gamma_s\<close>; \<open>None\<close> is no override.
\<close>

record reinforcement =
  fyk :: real
  Es :: real
  ftk :: real
  epsuk :: real
  gamma_s_attr :: "real option"
  name :: string
  density :: real

text \<open>
  Modelled from the spec: the constructor of the base class \<open>Reinforcement\<close> is not
  among the sources. The spec says of construction: "Store characteristic properties
  unchanged."
\<close>

definition Reinforcement_init ::
  "real \<Rightarrow> real \<Rightarrow> string \<Rightarrow> real \<Rightarrow> real \<Rightarrow> real \<Rightarrow> real option \<Rightarrow> reinforcement" where
  "Reinforcement_init fyk0 Es0 name0 density0 ftk0 epsuk0 gamma_s0 =
     \<lparr>fyk = fyk0, Es = Es0, ftk = ftk0, epsuk = epsuk0, gamma_s_attr = gamma_s0,
      name = name0, density = density0\<rparr>"

subsection \<open>The class ReinforcementEC2_2023\<close>

text \<open>The class adds the bound law, the private attribute \<open>_constitutive_law\<close>.\<close>

record reinforcementEC2_2023 = reinforcement +
  constitutive_law_attr :: constitutive_law

text \<open>
  The property \<open>gamma_s\<close>: \<open>self._gamma_s or 1.15\<close>. The operator \<open>or\<close> returns its
  left operand when that is truthy; \<open>None\<close> and a zero are falsy.
\<close>

definition gamma_s :: "'a reinforcement_scheme \<Rightarrow> real" where
  "gamma_s self =
     (case gamma_s_attr self of
        None \<Rightarrow> 115 / 100
      | Some g \<Rightarrow> if g = 0 then 115 / 100 else g)"

definition fyd :: "ec2_2023 \<Rightarrow> 'a reinforcement_scheme \<Rightarrow> error + real" where
  "fyd R self = ec2_fyd R (fyk self) (gamma_s self)"

definition ftd :: "ec2_2023 \<Rightarrow> 'a reinforcement_scheme \<Rightarrow> error + real" where
  "ftd R self = ec2_fyd R (ftk self) (gamma_s self)"

definition epsud :: "ec2_2023 \<Rightarrow> 'a reinforcement_scheme \<Rightarrow> error + real" where
  "epsud R self = ec2_eps_ud R (epsuk self) (gamma_s self)"

text \<open>
  Modelled from the spec: the property \<open>epsyd\<close> is inherited from the base class, which
  is not among the sources. The spec: "\<open>epsyd\<close> is the design yield strain (fyd / Es,
  assumed available from the base material abstraction)".
\<close>

definition epsyd :: "ec2_2023 \<Rightarrow> 'a reinforcement_scheme \<Rightarrow> error + real" where
  "epsyd R self = and_then (fyd R self) (\<lambda>fy. truediv fy (Es self))"

text \<open>The methods \<open>__elastic__\<close>, \<open>__elasticperfectlyplastic__\<close> and
  \<open>__elasticplastic__\<close>; a returned dict is the list of its items in insertion order.\<close>

definition dunder_elastic ::
  "ec2_2023 \<Rightarrow> 'a reinforcement_scheme \<Rightarrow> error + (string \<times> real) list" where
  "dunder_elastic R self = Inr [(''E'', Es self)]"

definition dunder_elasticperfectlyplastic ::
  "ec2_2023 \<Rightarrow> 'a reinforcement_scheme \<Rightarrow> error + (string \<times> real) list" where
  "dunder_elasticperfectlyplastic R self =
     and_then (fyd R self) (\<lambda>fy.
     and_then (epsud R self) (\<lambda>eu.
       Inr [(''E'', Es self), (''fy'', fy), (''eps_su'', eu)]))"

definition dunder_elasticplastic ::
  "ec2_2023 \<Rightarrow> 'a reinforcement_scheme \<Rightarrow> error + (string \<times> real) list" where
  "dunder_elasticplastic R self =
     and_then (ftd R self) (\<lambda>ft.
     and_then (fyd R self) (\<lambda>fy.
     and_then (epsud R self) (\<lambda>eu.
     and_then (epsyd R self) (\<lambda>ey.
     and_then (truediv (ft - fy) (eu - ey)) (\<lambda>Eh.
     and_then (fyd R self) (\<lambda>fy'.
     and_then (epsud R self) (\<lambda>eu'.
       Inr [(''E'', Es self), (''fy'', fy'), (''Eh'', Eh), (''eps_su'', eu')])))))))"

text \<open>
  The constructor. The factory \<open>create_constitutive_law\<close> is a parameter: it receives
  the argument that is not a law object and the material under construction, whose
  law is not bound yet. A raised exception leaves no object: the result is \<open>Inl\<close>.
\<close>

definition ReinforcementEC2_2023_init ::
  "(law_arg \<Rightarrow> reinforcement \<Rightarrow> error + constitutive_law) \<Rightarrow>
   real \<Rightarrow> real \<Rightarrow> real \<Rightarrow> real \<Rightarrow> real option \<Rightarrow> string option \<Rightarrow> real \<Rightarrow> law_arg \<Rightarrow>
   error + reinforcementEC2_2023" where
  "ReinforcementEC2_2023_init factory fyk0 Es0 ftk0 epsuk0 gamma_s0 name0 density0 law0 =
     (let name1 = (case name0 of
                     None \<Rightarrow> ''Reinforcement'' @ format_d (py_round fyk0)
                   | Some n \<Rightarrow> n);
          self = Reinforcement_init fyk0 Es0 name1 density0 ftk0 epsuk0 gamma_s0
      in and_then
           (case law0 of
              LawInstance law \<Rightarrow> Inr law
            | _ \<Rightarrow> factory law0 self)
           (\<lambda>law.
              if ''steel'' \<notin> set (law_materials law)
              then Inl (ValueError ''The provided constitutive law is not valid for reinforcement.'')
              else Inr (reinforcement.extend self \<lparr>constitutive_law_attr = law\<rparr>)))"

subsection \<open>The factory of constitutive laws\<close>

text \<open>
  Modelled from the spec: the factory \<open>create_constitutive_law\<close> of the package
  \<open>constitutive_laws\<close> is not among the sources. The spec: "\<open>build(kindName,
  parameterSource) -> LawInstance\<close>, where \<open>parameterSource\<close> exposes kind-specific
  parameter-supply methods; fails with an invalid-configuration error for unrecognized
  \<open>kindName\<close>", the recognized identifiers being "elastic", "elasticperfectlyplastic"
  and "elasticplastic". The marker of the law built for a kind is not given by the
  spec and is the parameter \<open>marker\<close>; the text of the error message is not given
  either. An argument that is not a string names no recognized kind.
\<close>

definition create_constitutive_law ::
  "ec2_2023 \<Rightarrow> (string \<Rightarrow> string list) \<Rightarrow> law_arg \<Rightarrow> reinforcement \<Rightarrow>
   error + constitutive_law" where
  "create_constitutive_law R marker constitutive_law_name material =
     (case constitutive_law_name of
        LawName n \<Rightarrow>
          if n = ''elastic'' then
            and_then (dunder_elastic R material)
              (\<lambda>kw. Inr \<lparr>law_materials = marker n, law_kwargs = kw\<rparr>)
          else if n = ''elasticperfectlyplastic'' then
            and_then (dunder_elasticperfectlyplastic R material)
              (\<lambda>kw. Inr \<lparr>law_materials = marker n, law_kwargs = kw\<rparr>)
          else if n = ''elasticplastic'' then
            and_then (dunder_elasticplastic R material)
              (\<lambda>kw. Inr \<lparr>law_materials = marker n, law_kwargs = kw\<rparr>)
          else Inl (ValueError (''Unknown constitutive law: '' @ n))
      | _ \<Rightarrow> Inl (ValueError ''Unknown constitutive law''))"

subsection \<open>Concrete inputs\<close>

text \<open>
  Concrete collaborators and materials: rules that divide the characteristic value by
  the partial factor, a law for steel and a law for concrete only, the factory with a
  marker table that tags every law it builds for steel and the one that tags it for
  concrete, and the material of grade 500 with a given ultimate strain and override,
  bound to the law for steel.
\<close>

definition rules_by_division :: ec2_2023 where
  "rules_by_division = \<lparr>ec2_fyd = truediv, ec2_eps_ud = truediv\<rparr>"

definition steel_law :: constitutive_law where
  "steel_law = \<lparr>law_materials = [''steel'', ''rebars''], law_kwargs = [(''E'', 200000)]\<rparr>"

definition concrete_law :: constitutive_law where
  "concrete_law = \<lparr>law_materials = [''concrete''], law_kwargs = [(''E'', 30000)]\<rparr>"

definition steel_factory :: "law_arg \<Rightarrow> reinforcement \<Rightarrow> error + constitutive_law" where
  "steel_factory = create_constitutive_law rules_by_division (\<lambda>n. [''steel'', ''rebars''])"

definition concrete_factory :: "law_arg \<Rightarrow> reinforcement \<Rightarrow> error + constitutive_law" where
  "concrete_factory = create_constitutive_law rules_by_division (\<lambda>n. [''concrete''])"

definition example_material :: "real \<Rightarrow> real option \<Rightarrow> reinforcementEC2_2023" where
  "example_material epsuk0 gamma_s0 =
     \<lparr>fyk = 500, Es = 200000, ftk = 575, epsuk = epsuk0, gamma_s_attr = gamma_s0,
      name = ''Reinforcement500'', density = 7850, constitutive_law_attr = steel_law\<rparr>"

section \<open>Properties\<close>

subsection \<open>Auxiliary facts\<close>

lemma and_then_eq_Inr: "and_then x f = Inr y \<longleftrightarrow> (\<exists>v. x = Inr v \<and> f v = Inr y)"
  by (cases x) simp_all

text \<open>What a successful construction leaves in the object.\<close>

lemma init_fields:
  assumes "ReinforcementEC2_2023_init factory fyk0 Es0 ftk0 epsuk0 gamma_s0 name0 density0 law0
             = Inr m"
  shows "fyk m = fyk0" and "Es m = Es0" and "ftk m = ftk0" and "epsuk m = epsuk0"
    and "gamma_s_attr m = gamma_s0" and "density m = density0"
    and "name m = (case name0 of
                     None \<Rightarrow> ''Reinforcement'' @ format_d (py_round fyk0)
                   | Some n \<Rightarrow> n)"
    and "''steel'' \<in> set (law_materials (constitutive_law_attr m))"
  using assms
  by (auto simp: ReinforcementEC2_2023_init_def Let_def and_then_eq_Inr Reinforcement_init_def
      reinforcement.defs split: if_splits)

lemma example_material_init:
  "ReinforcementEC2_2023_init factory 500 200000 575 epsuk0 gamma_s0 None 7850
     (LawInstance steel_law) = Inr (example_material epsuk0 gamma_s0)"
  by (simp add: ReinforcementEC2_2023_init_def Let_def Reinforcement_init_def
      reinforcement.defs example_material_def steel_law_def py_round_def format_d_def
      digits.simps digit_char_def)

lemma gamma_s_example:
  "gamma_s (example_material e None) = 115 / 100"
  "gamma_s (example_material e (Some 0)) = 115 / 100"
  "g \<noteq> 0 \<Longrightarrow> gamma_s (example_material e (Some g)) = g"
  by (simp_all add: gamma_s_def example_material_def)

subsection \<open>Design values\<close>

text \<open>
  Claim C1. For every constructed material, a call of \<open>fyd()\<close> returns the code rule
  \<open>ec2_2023.fyd\<close> applied to the stored characteristic yield strength \<open>fyk\<close> and
  the resolved partial factor \<open>gamma_s\<close>, whatever that rule returns or raises. The
  resolved factor is the override given to the constructor, or 1.15 when there is none
  or it is zero. The result depends on the stored attributes and on the rule only:
  nothing is cached.
\<close>

theorem fyd_delegates:
  assumes "ReinforcementEC2_2023_init factory fyk0 Es0 ftk0 epsuk0 gamma_s0 name0 density0 law0
             = Inr m"
  shows "fyd R m = ec2_fyd R (fyk m) (gamma_s m)
       \<and> fyd R m = ec2_fyd R (fyk m)
           (case gamma_s0 of None \<Rightarrow> 115 / 100 | Some g \<Rightarrow> if g = 0 then 115 / 100 else g)"
proof -
  have g: "gamma_s m
             = (case gamma_s0 of None \<Rightarrow> 115 / 100 | Some g \<Rightarrow> if g = 0 then 115 / 100 else g)"
    using init_fields(5) [OF assms] by (simp add: gamma_s_def)
  have d: "fyd R m = ec2_fyd R (fyk m) (gamma_s m)"
    by (simp add: fyd_def)
  from d g show ?thesis by simp
qed

theorem fyd_delegates_witness:
  "ReinforcementEC2_2023_init steel_factory 500 200000 575 (75 / 1000) None None 7850
     (LawInstance steel_law) = Inr (example_material (75 / 1000) None)
   \<and> fyd rules_by_division (example_material (75 / 1000) None)
       = ec2_fyd rules_by_division (fyk (example_material (75 / 1000) None))
           (gamma_s (example_material (75 / 1000) None))
   \<and> fyd rules_by_division (example_material (75 / 1000) None) = Inr (10000 / 23)"
proof -
  have h: "ReinforcementEC2_2023_init steel_factory 500 200000 575 (75 / 1000) None None 7850
             (LawInstance steel_law) = Inr (example_material (75 / 1000) None)"
    by (rule example_material_init)
  have d: "fyd rules_by_division (example_material (75 / 1000) None)
             = ec2_fyd rules_by_division (fyk (example_material (75 / 1000) None))
                 (gamma_s (example_material (75 / 1000) None))"
    using fyd_delegates [OF h] by (rule conjunct1)
  have v: "ec2_fyd rules_by_division (fyk (example_material (75 / 1000) None))
             (gamma_s (example_material (75 / 1000) None)) = Inr (10000 / 23)"
    by (simp add: gamma_s_def rules_by_division_def truediv_def example_material_def)
  from h d v show ?thesis by simp
qed

text \<open>
  Claim C2. For every constructed material, \<open>ftd()\<close> returns the same rule
  \<open>ec2_2023.fyd\<close> that \<open>fyd()\<close> uses, applied to the characteristic ultimate
  strength \<open>ftk\<close> and the resolved \<open>gamma_s\<close>: it is \<open>fyd()\<close> of the material whose
  yield strength is replaced by \<open>ftk\<close>, and the two design values are equal whenever
  the two characteristic strengths are.
\<close>

theorem ftd_same_rule_as_fyd:
  assumes "ReinforcementEC2_2023_init factory fyk0 Es0 ftk0 epsuk0 gamma_s0 name0 density0 law0
             = Inr m"
  shows "ftd R m = ec2_fyd R (ftk m) (gamma_s m)
       \<and> ftd R m = fyd R (m\<lparr>fyk := ftk m\<rparr>)
       \<and> (ftk m = fyk m \<longrightarrow> ftd R m = fyd R m)"
proof -
  have g: "gamma_s (m\<lparr>fyk := ftk m\<rparr>) = gamma_s m"
    by (simp add: gamma_s_def)
  have d: "ftd R m = ec2_fyd R (ftk m) (gamma_s m)"
    by (simp add: ftd_def)
  have e: "fyd R (m\<lparr>fyk := ftk m\<rparr>) = ec2_fyd R (ftk m) (gamma_s m)"
    by (simp add: fyd_def g)
  have f: "ftk m = fyk m \<longrightarrow> ftd R m = fyd R m"
    by (simp add: ftd_def fyd_def)
  from d e f show ?thesis by simp
qed

theorem ftd_same_rule_as_fyd_witness:
  "ReinforcementEC2_2023_init steel_factory 500 200000 575 (75 / 1000) None None 7850
     (LawInstance steel_law) = Inr (example_material (75 / 1000) None)
   \<and> ftd rules_by_division (example_material (75 / 1000) None)
       = ec2_fyd rules_by_division 575 (115 / 100)
   \<and> ftd rules_by_division (example_material (75 / 1000) None) = Inr 500"
proof -
  have h: "ReinforcementEC2_2023_init steel_factory 500 200000 575 (75 / 1000) None None 7850
             (LawInstance steel_law) = Inr (example_material (75 / 1000) None)"
    by (rule example_material_init)
  have "ftd rules_by_division (example_material (75 / 1000) None)
          = ec2_fyd rules_by_division (ftk (example_material (75 / 1000) None))
              (gamma_s (example_material (75 / 1000) None))"
    using ftd_same_rule_as_fyd [OF h] by blast
  then have d: "ftd rules_by_division (example_material (75 / 1000) None)
                  = ec2_fyd rules_by_division 575 (115 / 100)"
    by (simp add: gamma_s_example) (simp add: example_material_def)
  have v: "ec2_fyd rules_by_division 575 (115 / 100) = Inr 500"
    by (simp add: rules_by_division_def truediv_def)
  from h d v show ?thesis by simp
qed

subsection \<open>The partial factor\<close>

text \<open>
  Claim C3, as amended. For every constructed material, the accessor \<open>gamma_s\<close>
  returns 1.15 when no override was supplied at construction, and it returns every
  supplied override other than zero unchanged. (As the claim is written, every supplied
  override is returned unchanged; the override 0 is not, see the counterexample.)
\<close>

theorem gamma_s_default_or_override:
  assumes "ReinforcementEC2_2023_init factory fyk0 Es0 ftk0 epsuk0 gamma_s0 name0 density0 law0
             = Inr m"
  shows "(gamma_s0 = None \<longrightarrow> gamma_s m = 115 / 100)
       \<and> (\<forall>g. gamma_s0 = Some g \<and> g \<noteq> 0 \<longrightarrow> gamma_s m = g)"
  using init_fields(5) [OF assms] by (simp add: gamma_s_def)

theorem gamma_s_default_or_override_witness:
  "ReinforcementEC2_2023_init steel_factory 500 200000 575 (75 / 1000) (Some 1) None 7850
     (LawInstance steel_law) = Inr (example_material (75 / 1000) (Some 1))
   \<and> gamma_s (example_material (75 / 1000) (Some 1)) = 1
   \<and> ReinforcementEC2_2023_init steel_factory 500 200000 575 (75 / 1000) None None 7850
       (LawInstance steel_law) = Inr (example_material (75 / 1000) None)
   \<and> gamma_s (example_material (75 / 1000) None) = 115 / 100"
proof -
  have h1: "ReinforcementEC2_2023_init steel_factory 500 200000 575 (75 / 1000) (Some 1)
              None 7850 (LawInstance steel_law)
              = Inr (example_material (75 / 1000) (Some 1))"
    by (rule example_material_init)
  have h2: "ReinforcementEC2_2023_init steel_factory 500 200000 575 (75 / 1000) None None 7850
              (LawInstance steel_law) = Inr (example_material (75 / 1000) None)"
    by (rule example_material_init)
  have g1: "gamma_s (example_material (75 / 1000) (Some 1)) = 1"
    using gamma_s_default_or_override [OF h1] by simp
  have g2: "gamma_s (example_material (75 / 1000) None) = 115 / 100"
    using gamma_s_default_or_override [OF h2] by simp
  from h1 h2 g1 g2 show ?thesis by simp
qed

text \<open>
  The claim C3 as it is written fails at the override 0: the material is constructed,
  and its accessor returns 1.15, not the override.
\<close>

theorem gamma_s_override_counterexample:
  "ReinforcementEC2_2023_init steel_factory 500 200000 575 (75 / 1000) (Some 0) None 7850
     (LawInstance steel_law) = Inr (example_material (75 / 1000) (Some 0))
   \<and> gamma_s (example_material (75 / 1000) (Some 0)) = 115 / 100
   \<and> gamma_s (example_material (75 / 1000) (Some 0)) \<noteq> 0"
  by (simp add: example_material_init gamma_s_example)

text \<open>
  Claim C10. For every material constructed with the override 0 (the falsy number),
  the accessor \<open>gamma_s\<close> ignores the override and returns the default 1.15.
\<close>

theorem gamma_s_zero_override_ignored:
  assumes "ReinforcementEC2_2023_init factory fyk0 Es0 ftk0 epsuk0 (Some 0) name0 density0 law0
             = Inr m"
  shows "gamma_s m = 115 / 100"
  using init_fields(5) [OF assms] by (simp add: gamma_s_def)

theorem gamma_s_zero_override_ignored_witness:
  "ReinforcementEC2_2023_init steel_factory 500 200000 575 (75 / 1000) (Some 0) None 7850
     (LawInstance steel_law) = Inr (example_material (75 / 1000) (Some 0))
   \<and> gamma_s (example_material (75 / 1000) (Some 0)) = 115 / 100"
proof -
  have h: "ReinforcementEC2_2023_init steel_factory 500 200000 575 (75 / 1000) (Some 0) None
             7850 (LawInstance steel_law) = Inr (example_material (75 / 1000) (Some 0))"
    by (rule example_material_init)
  from h gamma_s_zero_override_ignored [OF h] show ?thesis by simp
qed




subsection \<open>Construction: the law\<close>

text \<open>An exception of the factory leaves the constructor as it is.\<close>

lemma init_factory_error:
  assumes "factory (LawName n)
             (Reinforcement_init fyk0 Es0
                (case name0 of None \<Rightarrow> ''Reinforcement'' @ format_d (py_round fyk0) | Some x \<Rightarrow> x)
                density0 ftk0 epsuk0 gamma_s0) = Inl e"
  shows "ReinforcementEC2_2023_init factory fyk0 Es0 ftk0 epsuk0 gamma_s0 name0 density0
           (LawName n) = Inl e"
  using assms by (simp add: ReinforcementEC2_2023_init_def Let_def)

text \<open>
  Claim C4. For every constitutive law whose marker \<open>__materials__\<close> does not contain
  "steel", construction raises the \<open>ValueError\<close> "The provided constitutive law is not
  valid for reinforcement." and returns no object. This holds for a law object passed
  to the constructor, and for a law that the factory built from a name.
\<close>

theorem non_steel_law_rejected:
  assumes "''steel'' \<notin> set (law_materials law)"
  shows "ReinforcementEC2_2023_init factory fyk0 Es0 ftk0 epsuk0 gamma_s0 name0 density0
           (LawInstance law)
           = Inl (ValueError ''The provided constitutive law is not valid for reinforcement.'')
       \<and> (factory (LawName n)
            (Reinforcement_init fyk0 Es0
               (case name0 of None \<Rightarrow> ''Reinforcement'' @ format_d (py_round fyk0) | Some x \<Rightarrow> x)
               density0 ftk0 epsuk0 gamma_s0) = Inr law
          \<longrightarrow> ReinforcementEC2_2023_init factory fyk0 Es0 ftk0 epsuk0 gamma_s0 name0 density0
                (LawName n)
                = Inl (ValueError ''The provided constitutive law is not valid for reinforcement.''))"
  using assms by (simp add: ReinforcementEC2_2023_init_def Let_def)

theorem non_steel_law_rejected_witness:
  "''steel'' \<notin> set (law_materials concrete_law)
   \<and> ReinforcementEC2_2023_init steel_factory 500 200000 575 (75 / 1000) None None 7850
       (LawInstance concrete_law)
       = Inl (ValueError ''The provided constitutive law is not valid for reinforcement.'')
   \<and> concrete_factory (LawName ''elastic'')
       (Reinforcement_init 500 200000 ''Reinforcement500'' 7850 575 (75 / 1000) None)
       = Inr \<lparr>law_materials = [''concrete''], law_kwargs = [(''E'', 200000)]\<rparr>
   \<and> ReinforcementEC2_2023_init concrete_factory 500 200000 575 (75 / 1000) None
       (Some ''Reinforcement500'') 7850 (LawName ''elastic'')
       = Inl (ValueError ''The provided constitutive law is not valid for reinforcement.'')"
proof -
  have a: "''steel'' \<notin> set (law_materials concrete_law)"
    by (simp add: concrete_law_def)
  have b: "''steel'' \<notin> set (law_materials
             \<lparr>law_materials = [''concrete''], law_kwargs = [(''E'', 200000)]\<rparr>)"
    by simp
  have c: "concrete_factory (LawName ''elastic'')
             (Reinforcement_init 500 200000 ''Reinforcement500'' 7850 575 (75 / 1000) None)
             = Inr \<lparr>law_materials = [''concrete''], law_kwargs = [(''E'', 200000)]\<rparr>"
    by (simp add: concrete_factory_def create_constitutive_law_def dunder_elastic_def
        Reinforcement_init_def)
  from a have d: "ReinforcementEC2_2023_init steel_factory 500 200000 575 (75 / 1000) None
                    None 7850 (LawInstance concrete_law)
                    = Inl (ValueError
                        ''The provided constitutive law is not valid for reinforcement.'')"
    using non_steel_law_rejected [of concrete_law] by blast
  have e: "ReinforcementEC2_2023_init concrete_factory 500 200000 575 (75 / 1000) None
             (Some ''Reinforcement500'') 7850 (LawName ''elastic'')
             = Inl (ValueError ''The provided constitutive law is not valid for reinforcement.'')"
    using non_steel_law_rejected [OF b, where factory = concrete_factory and n = "''elastic''"
        and ?fyk0.0 = 500 and ?Es0.0 = 200000 and ?name0.0 = "Some ''Reinforcement500''"
        and ?density0.0 = 7850 and ?ftk0.0 = 575 and ?epsuk0.0 = "75 / 1000"
        and ?gamma_s0.0 = None] c
    by simp
  from a c d e show ?thesis by blast
qed

text \<open>
  Claim C5. For every string that is not one of the three recognized identifiers
  "elastic", "elasticperfectlyplastic" and "elasticplastic", the factory raises its
  invalid-configuration error, and the constructor called with that string raises the
  same error and returns no object.
\<close>

theorem unknown_law_name_rejected:
  assumes "n \<notin> {''elastic'', ''elasticperfectlyplastic'', ''elasticplastic''}"
  shows "create_constitutive_law R marker (LawName n)
           (Reinforcement_init fyk0 Es0
              (case name0 of None \<Rightarrow> ''Reinforcement'' @ format_d (py_round fyk0) | Some x \<Rightarrow> x)
              density0 ftk0 epsuk0 gamma_s0)
           = Inl (ValueError (''Unknown constitutive law: '' @ n))
       \<and> ReinforcementEC2_2023_init (create_constitutive_law R marker) fyk0 Es0 ftk0 epsuk0
           gamma_s0 name0 density0 (LawName n)
           = Inl (ValueError (''Unknown constitutive law: '' @ n))"
proof -
  have f: "create_constitutive_law R marker (LawName n) self
             = Inl (ValueError (''Unknown constitutive law: '' @ n))" for self
    using assms by (simp add: create_constitutive_law_def)
  show ?thesis by (simp add: f init_factory_error)
qed

theorem unknown_law_name_rejected_witness:
  "''bogus'' \<notin> {''elastic'', ''elasticperfectlyplastic'', ''elasticplastic''}
   \<and> ReinforcementEC2_2023_init steel_factory 500 200000 575 (75 / 1000) None None 7850
       (LawName ''bogus'') = Inl (ValueError ''Unknown constitutive law: bogus'')"
proof -
  have a: "''bogus'' \<notin> {''elastic'', ''elasticperfectlyplastic'', ''elasticplastic''}"
    by simp
  from a unknown_law_name_rejected [OF a, where R = rules_by_division
      and marker = "\<lambda>n. [''steel'', ''rebars'']" and ?fyk0.0 = 500 and ?Es0.0 = 200000
      and ?name0.0 = None and ?density0.0 = 7850 and ?ftk0.0 = 575 and ?epsuk0.0 = "75 / 1000"
      and ?gamma_s0.0 = None]
  show ?thesis by (simp add: steel_factory_def)
qed

subsection \<open>Construction: the default name\<close>

text \<open>\<open>py_round\<close> returns a nearest integer, and the even one at a tie.\<close>

lemma py_round_nearest: "\<bar>x - of_int (py_round x)\<bar> \<le> 1 / 2"
proof -
  have a: "of_int \<lfloor>x\<rfloor> \<le> x" and b: "x < of_int \<lfloor>x\<rfloor> + 1"
    by linarith+
  show ?thesis
    unfolding py_round_def Let_def using a b by (simp split: if_splits)
qed

lemma py_round_tie_even: "\<bar>x - of_int (py_round x)\<bar> = 1 / 2 \<Longrightarrow> even (py_round x)"
  unfolding py_round_def Let_def by (auto split: if_splits)

text \<open>\<open>digits\<close> writes decimal digits only, and they denote the number.\<close>

lemma digit_char_mem: "d < 10 \<Longrightarrow> digit_char d \<in> set ''0123456789''"
  unfolding digit_char_def by (rule nth_mem) simp

lemma digits_subset: "set (digits n) \<subseteq> set ''0123456789''"
proof (induction n rule: digits.induct)
  case (1 n)
  show ?case
  proof (cases "n < 10")
    case True
    then show ?thesis using digit_char_mem [of n] by (subst digits.simps) simp
  next
    case False
    have "n mod 10 < 10" by simp
    then have "digit_char (n mod 10) \<in> set ''0123456789''" by (rule digit_char_mem)
    with 1 False show ?thesis by (subst digits.simps) simp
  qed
qed

lemma of_char_digit_char: "d < 10 \<Longrightarrow> of_char (digit_char d) = (48 + d :: nat)"
proof -
  assume "d < 10"
  then have "d = 0 \<or> d = 1 \<or> d = 2 \<or> d = 3 \<or> d = 4 \<or> d = 5 \<or> d = 6 \<or> d = 7 \<or> d = 8 \<or> d = 9"
    by arith
  then show ?thesis by (auto simp: digit_char_def)
qed

lemma digits_decimal: "foldl (\<lambda>a c. 10 * a + (of_char c - 48)) 0 (digits n) = n"
proof (induction n rule: digits.induct)
  case (1 n)
  show ?case
  proof (cases "n < 10")
    case True
    then show ?thesis by (subst digits.simps) (simp add: of_char_digit_char)
  next
    case False
    with 1 show ?thesis by (subst digits.simps) (simp add: of_char_digit_char)
  qed
qed

lemma format_d_chars: "set (format_d i) \<subseteq> set ''-0123456789''"
proof -
  define S where "S = set ''-0123456789''"
  have m: "CHR ''-'' \<in> S"
    unfolding S_def by simp
  have s: "set ''0123456789'' \<subseteq> S"
    unfolding S_def by (simp only: list.set) (rule subset_insertI)
  have d: "set (digits k) \<subseteq> S" for k
    using digits_subset [of k] s by (rule subset_trans)
  have "set (format_d i) \<subseteq> S"
    using m d by (simp add: format_d_def)
  then show ?thesis unfolding S_def .
qed

lemma format_d_nonneg_chars: "0 \<le> i \<Longrightarrow> set (format_d i) \<subseteq> set ''0123456789''"
proof -
  assume "0 \<le> i"
  then have "format_d i = digits (nat i)"
    by (simp add: format_d_def)
  then show ?thesis
    by (simp only: digits_subset)
qed

lemma digits_nonempty: "digits n \<noteq> []"
  by (subst digits.simps) simp

lemma digits_zero: "digits 0 = ''0''"
  by (subst digits.simps) (simp add: digit_char_def)

lemma digit_char_zero: "d < 10 \<Longrightarrow> digit_char d = CHR ''0'' \<Longrightarrow> d = 0"
proof -
  assume "d < 10" and z: "digit_char d = CHR ''0''"
  then have "d = 0 \<or> d = 1 \<or> d = 2 \<or> d = 3 \<or> d = 4 \<or> d = 5 \<or> d = 6 \<or> d = 7 \<or> d = 8 \<or> d = 9"
    by arith
  with z show ?thesis by (auto simp: digit_char_def)
qed

lemma digits_hd_zero: "hd (digits n) = CHR ''0'' \<Longrightarrow> n = 0"
proof (induction n rule: digits.induct)
  case (1 n)
  show ?case
  proof (cases "n < 10")
    case True
    then have "digits n = [digit_char n]"
      by (subst digits.simps) simp
    with 1(2) have "digit_char n = CHR ''0''"
      by simp
    with True show ?thesis by (rule digit_char_zero)
  next
    case False
    then have "digits n = digits (n div 10) @ [digit_char (n mod 10)]"
      by (subst digits.simps) simp
    with 1(2) have "hd (digits (n div 10)) = CHR ''0''"
      by (simp add: digits_nonempty)
    with 1(1) False have "n div 10 = 0"
      by simp
    with False show ?thesis by simp
  qed
qed

lemma digits_no_leading_zero: "hd (digits n) = CHR ''0'' \<Longrightarrow> digits n = ''0''"
  using digits_hd_zero [of n] digits_zero by simp

lemma format_d_decimal:
  "\<exists>s. format_d k = (if k < 0 then CHR ''-'' # s else s)
       \<and> s \<noteq> [] \<and> set s \<subseteq> set ''0123456789'' \<and> (hd s = CHR ''0'' \<longrightarrow> s = ''0'')
       \<and> foldl (\<lambda>a c. 10 * a + (of_char c - 48)) 0 s = nat \<bar>k\<bar>"
proof -
  define s where "s = digits (nat \<bar>k\<bar>)"
  have f: "format_d k = (if k < 0 then CHR ''-'' # s else s)"
  proof (cases "k < 0")
    case True
    then have "nat (- k) = nat \<bar>k\<bar>" by simp
    with True show ?thesis by (simp add: format_d_def s_def)
  next
    case False
    then have "nat k = nat \<bar>k\<bar>" by simp
    with False show ?thesis by (simp add: format_d_def s_def)
  qed
  have n: "s \<noteq> []"
    unfolding s_def by (rule digits_nonempty)
  have c: "set s \<subseteq> set ''0123456789''"
    unfolding s_def by (rule digits_subset)
  have z: "hd s = CHR ''0'' \<longrightarrow> s = ''0''"
    unfolding s_def using digits_no_leading_zero by blast
  have v: "foldl (\<lambda>a c. 10 * a + (of_char c - 48)) 0 s = nat \<bar>k\<bar>"
    unfolding s_def by (rule digits_decimal)
  from f n c z v show ?thesis by blast
qed

text \<open>
  The decimal numeral of a number is unique: a string of digits that is not empty and has
  no leading zero is what \<open>digits\<close> writes for its value. The nearest integer with
  ties to even is unique as well.
\<close>

lemma digit_char_ex: "c \<in> set ''0123456789'' \<Longrightarrow> \<exists>d<10. c = digit_char d"
proof -
  assume "c \<in> set ''0123456789''"
  then obtain i where "i < length ''0123456789''" and "''0123456789'' ! i = c"
    unfolding in_set_conv_nth by blast
  then have "i < 10 \<and> c = digit_char i"
    by (simp add: digit_char_def)
  then show ?thesis by blast
qed

lemma decimal_value_pos:
  assumes "s \<noteq> []" and "set s \<subseteq> set ''0123456789''" and "hd s \<noteq> CHR ''0''"
  shows "0 < foldl (\<lambda>a c. 10 * a + (of_char c - 48)) (0::nat) s"
  using assms
proof (induction s rule: rev_induct)
  case Nil
  then show ?case by simp
next
  case (snoc c s)
  show ?case
  proof (cases "s = []")
    case True
    from snoc(3) obtain d where d: "d < 10" "c = digit_char d"
      using digit_char_ex [of c] by auto
    have "d \<noteq> 0"
    proof
      assume "d = 0"
      with d(2) have "c = CHR ''0''" by (simp add: digit_char_def)
      with snoc(4) True show False by simp
    qed
    with d True show ?thesis
      by (simp add: of_char_digit_char)
  next
    case False
    with snoc have "0 < foldl (\<lambda>a c. 10 * a + (of_char c - 48)) (0::nat) s"
      by simp
    then show ?thesis by simp
  qed
qed

lemma decimal_string_unique:
  assumes "s \<noteq> []" and "set s \<subseteq> set ''0123456789''" and "hd s = CHR ''0'' \<longrightarrow> s = ''0''"
  shows "digits (foldl (\<lambda>a c. 10 * a + (of_char c - 48)) 0 s) = s"
  using assms
proof (induction s rule: rev_induct)
  case Nil
  then show ?case by simp
next
  case (snoc c s)
  from snoc(3) obtain d where d: "d < 10" "c = digit_char d"
    using digit_char_ex [of c] by auto
  show ?case
  proof (cases "s = []")
    case True
    with d show ?thesis
      by (subst digits.simps) (simp add: of_char_digit_char)
  next
    case False
    have h: "hd s \<noteq> CHR ''0''"
    proof
      assume "hd s = CHR ''0''"
      with False have "hd (s @ [c]) = CHR ''0''" by simp
      with snoc(4) have "s @ [c] = ''0''" by blast
      with False show False by (cases s) simp_all
    qed
    from snoc(3) have sub: "set s \<subseteq> set ''0123456789''"
      by simp
    have pos: "0 < foldl (\<lambda>a c. 10 * a + (of_char c - 48)) (0::nat) s"
      using False sub h by (rule decimal_value_pos)
    have ih: "digits (foldl (\<lambda>a c. 10 * a + (of_char c - 48)) 0 s) = s"
      using snoc(1) False sub h by blast
    define v where "v = foldl (\<lambda>a c. 10 * a + (of_char c - 48)) (0::nat) s"
    have val: "foldl (\<lambda>a c. 10 * a + (of_char c - 48)) 0 (s @ [c]) = 10 * v + d"
      using d by (simp add: v_def of_char_digit_char)
    have "digits (10 * v + d) = digits v @ [digit_char d]"
      using pos d(1) unfolding v_def [symmetric] by (subst digits.simps) simp
    with ih d(2) show ?thesis
      unfolding val v_def by simp
  qed
qed

lemma nearest_even_unique:
  fixes x :: real and k l :: int
  assumes "\<bar>x - of_int k\<bar> \<le> 1 / 2" and "\<bar>x - of_int k\<bar> = 1 / 2 \<longrightarrow> even k"
    and "\<bar>x - of_int l\<bar> \<le> 1 / 2" and "\<bar>x - of_int l\<bar> = 1 / 2 \<longrightarrow> even l"
  shows "k = l"
proof (rule ccontr)
  assume ne: "k \<noteq> l"
  have "\<bar>real_of_int k - real_of_int l\<bar> \<le> 1"
    using assms(1,3) by linarith
  then have "\<bar>k - l\<bar> \<le> 1"
    by linarith
  with ne have c: "k = l + 1 \<or> l = k + 1"
    by linarith
  then have "\<bar>x - of_int k\<bar> = 1 / 2 \<and> \<bar>x - of_int l\<bar> = 1 / 2"
  proof
    assume "k = l + 1"
    then have e: "real_of_int k = real_of_int l + 1" by simp
    with assms(1,3) have "x = real_of_int l + 1 / 2" by linarith
    with e show ?thesis by simp
  next
    assume "l = k + 1"
    then have e: "real_of_int l = real_of_int k + 1" by simp
    with assms(1,3) have "x = real_of_int k + 1 / 2" by linarith
    with e show ?thesis by simp
  qed
  with assms(2,4) have "even k" and "even l"
    by blast+
  with c show False by auto
qed

text \<open>
  Claim C6. For every construction in which \<open>name\<close> is \<open>None\<close>, the stored name is
  the string "Reinforcement" followed by the integer nearest to \<open>fyk\<close>, written in
  decimal digits (with a minus sign when it is negative), with no separator and no
  decimal point. In particular \<open>fyk = 500.4\<close> gives the name "Reinforcement500".

  The last two conjuncts say what the name is without the functions of the model: there
  is an integer \<open>k\<close> within one half of \<open>fyk\<close>, even at a tie, and a string \<open>s\<close> of
  decimal digits without a leading zero whose value is the magnitude of \<open>k\<close>, such that
  the name is "Reinforcement", a minus sign when \<open>k\<close> is negative, and \<open>s\<close>; and every
  such \<open>k\<close> and \<open>s\<close> give the stored name.
\<close>

theorem default_name_rounds_fyk:
  assumes "ReinforcementEC2_2023_init factory fyk0 Es0 ftk0 epsuk0 gamma_s0 None density0 law0
             = Inr m"
  shows "name m = ''Reinforcement'' @ format_d (py_round fyk0)
       \<and> \<bar>fyk0 - of_int (py_round fyk0)\<bar> \<le> 1 / 2
       \<and> set (format_d (py_round fyk0)) \<subseteq> set ''-0123456789''
       \<and> (fyk0 = 5004 / 10 \<longrightarrow> name m = ''Reinforcement500'')
       \<and> (\<exists>k s. name m = ''Reinforcement'' @ (if k < 0 then CHR ''-'' # s else s)
              \<and> \<bar>fyk0 - of_int k\<bar> \<le> 1 / 2
              \<and> (\<bar>fyk0 - of_int k\<bar> = 1 / 2 \<longrightarrow> even k)
              \<and> s \<noteq> [] \<and> set s \<subseteq> set ''0123456789''
              \<and> (hd s = CHR ''0'' \<longrightarrow> s = ''0'')
              \<and> foldl (\<lambda>a c. 10 * a + (of_char c - 48)) 0 s = nat \<bar>k\<bar>)
       \<and> (\<forall>k s. \<bar>fyk0 - of_int k\<bar> \<le> 1 / 2
              \<and> (\<bar>fyk0 - of_int k\<bar> = 1 / 2 \<longrightarrow> even k)
              \<and> s \<noteq> [] \<and> set s \<subseteq> set ''0123456789''
              \<and> (hd s = CHR ''0'' \<longrightarrow> s = ''0'')
              \<and> foldl (\<lambda>a c. 10 * a + (of_char c - 48)) 0 s = nat \<bar>k\<bar>
            \<longrightarrow> name m = ''Reinforcement'' @ (if k < 0 then CHR ''-'' # s else s))"
proof -
  have n: "name m = ''Reinforcement'' @ format_d (py_round fyk0)"
    using init_fields(7) [OF assms] by simp
  have p: "fyk0 = 5004 / 10 \<longrightarrow> name m = ''Reinforcement500''"
  proof
    assume e: "fyk0 = 5004 / 10"
    show "name m = ''Reinforcement500''"
      unfolding n e by (simp add: py_round_def Let_def format_d_def digits.simps digit_char_def)
  qed
  obtain s where s: "format_d (py_round fyk0) = (if py_round fyk0 < 0 then CHR ''-'' # s else s)"
      "s \<noteq> []" "set s \<subseteq> set ''0123456789''" "hd s = CHR ''0'' \<longrightarrow> s = ''0''"
      "foldl (\<lambda>a c. 10 * a + (of_char c - 48)) 0 s = nat \<bar>py_round fyk0\<bar>"
    using format_d_decimal [of "py_round fyk0"] by blast
  have t: "\<bar>fyk0 - of_int (py_round fyk0)\<bar> = 1 / 2 \<longrightarrow> even (py_round fyk0)"
    using py_round_tie_even [of fyk0] by blast
  have r: "name m = ''Reinforcement'' @ (if py_round fyk0 < 0 then CHR ''-'' # s else s)"
    unfolding n s(1) by (rule refl)
  have x: "\<exists>k s. name m = ''Reinforcement'' @ (if k < 0 then CHR ''-'' # s else s)
              \<and> \<bar>fyk0 - of_int k\<bar> \<le> 1 / 2
              \<and> (\<bar>fyk0 - of_int k\<bar> = 1 / 2 \<longrightarrow> even k)
              \<and> s \<noteq> [] \<and> set s \<subseteq> set ''0123456789''
              \<and> (hd s = CHR ''0'' \<longrightarrow> s = ''0'')
              \<and> foldl (\<lambda>a c. 10 * a + (of_char c - 48)) 0 s = nat \<bar>k\<bar>"
    using r py_round_nearest [of fyk0] t s(2-5) by blast
  have u: "name m = ''Reinforcement'' @ (if k < 0 then CHR ''-'' # s' else s')"
    if a: "\<bar>fyk0 - of_int k\<bar> \<le> 1 / 2" "\<bar>fyk0 - of_int k\<bar> = 1 / 2 \<longrightarrow> even k"
      and b: "s' \<noteq> []" "set s' \<subseteq> set ''0123456789''" "hd s' = CHR ''0'' \<longrightarrow> s' = ''0''"
      and c: "foldl (\<lambda>a c. 10 * a + (of_char c - 48)) 0 s' = nat \<bar>k\<bar>"
    for k s'
  proof -
    have k: "k = py_round fyk0"
      using a py_round_nearest [of fyk0] t by (rule nearest_even_unique)
    have "digits (foldl (\<lambda>a c. 10 * a + (of_char c - 48)) 0 s') = s'"
      using b by (rule decimal_string_unique)
    then have d: "digits (nat \<bar>k\<bar>) = s'"
      unfolding c .
    have "digits (foldl (\<lambda>a c. 10 * a + (of_char c - 48)) 0 s) = s"
      using s(2-4) by (rule decimal_string_unique)
    then have "digits (nat \<bar>py_round fyk0\<bar>) = s"
      unfolding s(5) .
    with d k have "s' = s"
      by simp
    with r k show ?thesis
      by simp
  qed
  from n p x u py_round_nearest [of fyk0] format_d_chars [of "py_round fyk0"]
  show ?thesis by blast
qed

theorem default_name_rounds_fyk_witness:
  "ReinforcementEC2_2023_init steel_factory (5004 / 10) 200000 575 (75 / 1000) None None 7850
     (LawInstance steel_law)
     = Inr ((example_material (75 / 1000) None)\<lparr>fyk := 5004 / 10\<rparr>)
   \<and> name ((example_material (75 / 1000) None)\<lparr>fyk := 5004 / 10\<rparr>) = ''Reinforcement500''"
proof -
  have h: "ReinforcementEC2_2023_init steel_factory (5004 / 10) 200000 575 (75 / 1000) None
             None 7850 (LawInstance steel_law)
             = Inr ((example_material (75 / 1000) None)\<lparr>fyk := 5004 / 10\<rparr>)"
    by (simp add: ReinforcementEC2_2023_init_def Let_def Reinforcement_init_def
        reinforcement.defs example_material_def steel_law_def py_round_def format_d_def
        digits.simps digit_char_def)
  have "name ((example_material (75 / 1000) None)\<lparr>fyk := 5004 / 10\<rparr>) = ''Reinforcement500''"
    using default_name_rounds_fyk [OF h] by blast
  with h show ?thesis by (rule conjI)
qed

subsection \<open>Parameters of the elastic-plastic law\<close>

text \<open>
  Claim C7. For every constructed material whose design values exist and whose design
  ultimate strain \<open>epsud()\<close> differs from the design yield strain \<open>epsyd\<close>, the method
  \<open>__elasticplastic__\<close> returns the dict with exactly the keys \<open>E\<close>, \<open>fy\<close>, \<open>Eh\<close>
  and \<open>eps_su\<close>, holding \<open>Es\<close>, \<open>fyd()\<close>, the hardening modulus
  \<open>(ftd() - fyd()) / (epsud() - epsyd)\<close> and \<open>epsud()\<close>, where \<open>epsyd\<close> is
  \<open>fyd() / Es\<close>.
\<close>

theorem elasticplastic_parameters:
  assumes "ReinforcementEC2_2023_init factory fyk0 Es0 ftk0 epsuk0 gamma_s0 name0 density0 law0
             = Inr m"
    and "ftd R m = Inr ft" and "fyd R m = Inr fy"
    and "epsud R m = Inr eu" and "epsyd R m = Inr ey"
    and "eu \<noteq> ey"
  shows "dunder_elasticplastic R m
           = Inr [(''E'', Es m), (''fy'', fy), (''Eh'', (ft - fy) / (eu - ey)), (''eps_su'', eu)]
       \<and> ey = fy / Es m"
proof -
  have y: "ey = fy / Es m"
    using assms(3,5) by (simp add: epsyd_def truediv_def split: if_splits)
  have d: "truediv (ft - fy) (eu - ey) = Inr ((ft - fy) / (eu - ey))"
    using assms(6) by (simp add: truediv_def)
  have "dunder_elasticplastic R m
          = Inr [(''E'', Es m), (''fy'', fy), (''Eh'', (ft - fy) / (eu - ey)), (''eps_su'', eu)]"
    unfolding dunder_elasticplastic_def by (simp add: assms(2-5) d)
  with y show ?thesis by (rule conjI [rotated])
qed

theorem elasticplastic_parameters_witness:
  "ReinforcementEC2_2023_init steel_factory 500 200000 575 (75 / 1000) None None 7850
     (LawInstance steel_law) = Inr (example_material (75 / 1000) None)
   \<and> ftd rules_by_division (example_material (75 / 1000) None) = Inr 500
   \<and> fyd rules_by_division (example_material (75 / 1000) None) = Inr (10000 / 23)
   \<and> epsud rules_by_division (example_material (75 / 1000) None) = Inr (3 / 46)
   \<and> epsyd rules_by_division (example_material (75 / 1000) None) = Inr (1 / 460)
   \<and> (3 / 46 :: real) \<noteq> 1 / 460
   \<and> dunder_elasticplastic rules_by_division (example_material (75 / 1000) None)
       = Inr [(''E'', 200000), (''fy'', 10000 / 23), (''Eh'', 30000 / 29), (''eps_su'', 3 / 46)]"
proof -
  have h: "ReinforcementEC2_2023_init steel_factory 500 200000 575 (75 / 1000) None None 7850
             (LawInstance steel_law) = Inr (example_material (75 / 1000) None)"
    by (rule example_material_init)
  have ft: "ftd rules_by_division (example_material (75 / 1000) None) = Inr 500"
    by (simp add: ftd_def gamma_s_def rules_by_division_def truediv_def example_material_def)
  have fy: "fyd rules_by_division (example_material (75 / 1000) None) = Inr (10000 / 23)"
    by (simp add: fyd_def gamma_s_def rules_by_division_def truediv_def example_material_def)
  have eu: "epsud rules_by_division (example_material (75 / 1000) None) = Inr (3 / 46)"
    by (simp add: epsud_def gamma_s_def rules_by_division_def truediv_def example_material_def)
  have ey: "epsyd rules_by_division (example_material (75 / 1000) None) = Inr (1 / 460)"
    unfolding epsyd_def fy by (simp add: truediv_def example_material_def)
  have ne: "(3 / 46 :: real) \<noteq> 1 / 460"
    by simp
  have "dunder_elasticplastic rules_by_division (example_material (75 / 1000) None)
          = Inr [(''E'', Es (example_material (75 / 1000) None)), (''fy'', 10000 / 23),
                 (''Eh'', (500 - 10000 / 23) / (3 / 46 - 1 / 460)), (''eps_su'', 3 / 46)]"
    using elasticplastic_parameters [OF h ft fy eu ey ne] by (rule conjunct1)
  then have r: "dunder_elasticplastic rules_by_division (example_material (75 / 1000) None)
                  = Inr [(''E'', 200000), (''fy'', 10000 / 23), (''Eh'', 30000 / 29),
                         (''eps_su'', 3 / 46)]"
    by (simp add: example_material_def)
  from h ft fy eu ey ne r show ?thesis by blast
qed

text \<open>
  Claim C8. For every constructed material whose design values exist and whose design
  ultimate strain \<open>epsud()\<close> equals the design yield strain \<open>epsyd\<close>, the method
  \<open>__elasticplastic__\<close> raises \<open>ZeroDivisionError\<close>: the division by the zero
  difference raises, and no dict with a hardening modulus is returned.
\<close>

theorem elasticplastic_degenerate_raises:
  assumes "ReinforcementEC2_2023_init factory fyk0 Es0 ftk0 epsuk0 gamma_s0 name0 density0 law0
             = Inr m"
    and "ftd R m = Inr ft" and "fyd R m = Inr fy"
    and "epsud R m = Inr eu" and "epsyd R m = Inr ey"
    and "eu = ey"
  shows "dunder_elasticplastic R m = Inl ZeroDivisionError"
proof -
  have d: "truediv (ft - fy) (eu - ey) = Inl ZeroDivisionError"
    using assms(6) by (simp add: truediv_def)
  show ?thesis
    unfolding dunder_elasticplastic_def by (simp add: assms(2-5) d)
qed

theorem elasticplastic_degenerate_raises_witness:
  "ReinforcementEC2_2023_init steel_factory 500 200000 575 (1 / 400) None None 7850
     (LawInstance steel_law) = Inr (example_material (1 / 400) None)
   \<and> ftd rules_by_division (example_material (1 / 400) None) = Inr 500
   \<and> fyd rules_by_division (example_material (1 / 400) None) = Inr (10000 / 23)
   \<and> epsud rules_by_division (example_material (1 / 400) None) = Inr (1 / 460)
   \<and> epsyd rules_by_division (example_material (1 / 400) None) = Inr (1 / 460)
   \<and> dunder_elasticplastic rules_by_division (example_material (1 / 400) None)
       = Inl ZeroDivisionError"
proof -
  have h: "ReinforcementEC2_2023_init steel_factory 500 200000 575 (1 / 400) None None 7850
             (LawInstance steel_law) = Inr (example_material (1 / 400) None)"
    by (rule example_material_init)
  have ft: "ftd rules_by_division (example_material (1 / 400) None) = Inr 500"
    by (simp add: ftd_def gamma_s_def rules_by_division_def truediv_def example_material_def)
  have fy: "fyd rules_by_division (example_material (1 / 400) None) = Inr (10000 / 23)"
    by (simp add: fyd_def gamma_s_def rules_by_division_def truediv_def example_material_def)
  have eu: "epsud rules_by_division (example_material (1 / 400) None) = Inr (1 / 460)"
    by (simp add: epsud_def gamma_s_def rules_by_division_def truediv_def example_material_def)
  have ey: "epsyd rules_by_division (example_material (1 / 400) None) = Inr (1 / 460)"
    unfolding epsyd_def fy by (simp add: truediv_def example_material_def)
  have r: "dunder_elasticplastic rules_by_division (example_material (1 / 400) None)
             = Inl ZeroDivisionError"
    by (rule elasticplastic_degenerate_raises [OF h ft fy eu ey refl])
  from h ft fy eu ey r show ?thesis by blast
qed

end
